theory Spec2Isabelle
  imports Main "HOL-Library.AList"
begin

section \<open>Strings and paths\<close>

text \<open>
  Python's \<open>str.lstrip(c)\<close> and \<open>str.rstrip(c)\<close> for a single character, and the
  functions of \<open>posixpath\<close> that \<open>cement/core/template.py\<close> calls: \<open>os.path.join\<close>
  (two arguments), \<open>os.path.dirname\<close> and \<open>os.path.basename\<close>.
\<close>

definition lstrip :: "char \<Rightarrow> string \<Rightarrow> string" where
  "lstrip c s = dropWhile (\<lambda>x. x = c) s"

definition rstrip :: "char \<Rightarrow> string \<Rightarrow> string" where
  "rstrip c s = rev (dropWhile (\<lambda>x. x = c) (rev s))"

definition isabs :: "string \<Rightarrow> bool" where
  "isabs p = (case p of [] \<Rightarrow> False | c # _ \<Rightarrow> c = CHR ''/'')"

definition join :: "string \<Rightarrow> string \<Rightarrow> string" where
  "join a b =
     (if isabs b then b
      else if a = [] \<or> last a = CHR ''/'' then a @ b
      else a @ ''/'' @ b)"

definition basename :: "string \<Rightarrow> string" where
  "basename p = rev (takeWhile (\<lambda>x. x \<noteq> CHR ''/'') (rev p))"

definition dirname :: "string \<Rightarrow> string" where
  "dirname p =
     (let head = rev (dropWhile (\<lambda>x. x \<noteq> CHR ''/'') (rev p))
      in if head \<noteq> [] \<and> head \<noteq> replicate (length head) (CHR ''/'')
         then rstrip (CHR ''/'') head else head)"

section \<open>Errors\<close>

text \<open>
  Every exception the modelled code can raise is a value. \<open>FrameworkError\<close> is
  \<open>cement.core.exc.FrameworkError\<close>, \<open>AssertionError\<close> a failed \<open>assert\<close>; both carry
  their message. The others are the \<open>OSError\<close> subclasses of the file operations, with
  the path, and \<open>SameFileError\<close> of \<open>shutil\<close>.
\<close>

datatype error =
    FrameworkError string
  | AssertionError string
  | FileNotFoundError string
  | IsADirectoryError string
  | NotADirectoryError string
  | FileExistsError string
  | SameFileError string

section \<open>The file system\<close>

text \<open>
  A file system is a finite table from path strings to nodes, in the order in which a
  directory scan lists them. Paths are looked up as they are written; the root directory
  always exists. The table is exact for absolute paths in normal form, which is what
  \<open>fs.abspath\<close> hands to every operation below.
\<close>

datatype node = File string | Dir

type_synonym fs = "(string \<times> node) list"

definition lookup :: "fs \<Rightarrow> string \<Rightarrow> node option" where
  "lookup t p = (if p = ''/'' then Some Dir else map_of t p)"

definition path_exists :: "fs \<Rightarrow> string \<Rightarrow> bool" where
  "path_exists t p = (lookup t p \<noteq> None)"

definition isdir :: "fs \<Rightarrow> string \<Rightarrow> bool" where
  "isdir t p = (lookup t p = Some Dir)"

definition isfile :: "fs \<Rightarrow> string \<Rightarrow> bool" where
  "isfile t p = (case lookup t p of Some (File _) \<Rightarrow> True | _ \<Rightarrow> False)"

text \<open>\<open>open(p, 'r').read()\<close>\<close>

definition read_file :: "fs \<Rightarrow> string \<Rightarrow> error + string" where
  "read_file t p =
     (case lookup t p of
        None \<Rightarrow> Inl (FileNotFoundError p)
      | Some Dir \<Rightarrow> Inl (IsADirectoryError p)
      | Some (File c) \<Rightarrow> Inr c)"

text \<open>\<open>f = open(p, 'w'); f.write(c); f.close()\<close>\<close>

definition write_file :: "fs \<Rightarrow> string \<Rightarrow> string \<Rightarrow> error + fs" where
  "write_file t p c =
     (case lookup t p of
        Some Dir \<Rightarrow> Inl (IsADirectoryError p)
      | Some (File _) \<Rightarrow> Inr (AList.update p (File c) t)
      | None \<Rightarrow>
          (case lookup t (dirname p) of
             None \<Rightarrow> Inl (FileNotFoundError p)
           | Some (File _) \<Rightarrow> Inl (NotADirectoryError p)
           | Some Dir \<Rightarrow> Inr (AList.update p (File c) t)))"

text \<open>
  \<open>shutil.copy(src, dst)\<close>: into \<open>dst\<close> when it is a directory, under the base name of
  \<open>src\<close>; refuses to copy a file onto itself.
\<close>

definition shutil_copy :: "fs \<Rightarrow> string \<Rightarrow> string \<Rightarrow> error + fs" where
  "shutil_copy t s d =
     (let d' = (if isdir t d then join d (basename s) else d)
      in if s = d' \<and> path_exists t s then Inl (SameFileError s)
         else (case read_file t s of
                 Inl e \<Rightarrow> Inl e
               | Inr c \<Rightarrow> write_file t d' c))"

text \<open>
  \<open>os.makedirs(p)\<close>: every missing ancestor of \<open>p\<close> is created, outermost first, then
  \<open>p\<close> itself. Below an ancestor that is a regular file nothing can be created: the
  error names the path whose creation fails. A leaf that exists is an error too.
\<close>

definition ancestors :: "string \<Rightarrow> string list" where
  "ancestors p = [take i p. i \<leftarrow> [1 ..< length p], p ! i = CHR ''/'']"

fun mkdir_missing :: "fs \<Rightarrow> string \<Rightarrow> string list \<Rightarrow> error + fs" where
  "mkdir_missing t leaf [] = Inr t"
| "mkdir_missing t leaf (a # as) =
     (case lookup t a of
        Some Dir \<Rightarrow> mkdir_missing t leaf as
      | Some (File _) \<Rightarrow> Inl (NotADirectoryError (case as of [] \<Rightarrow> leaf | b # _ \<Rightarrow> b))
      | None \<Rightarrow> mkdir_missing (AList.update a Dir t) leaf as)"

definition makedirs :: "fs \<Rightarrow> string \<Rightarrow> error + fs" where
  "makedirs t p =
     (case mkdir_missing t p (ancestors p) of
        Inl e \<Rightarrow> Inl e
      | Inr t' \<Rightarrow>
          if path_exists t' p then Inl (FileExistsError p)
          else Inr (AList.update p Dir t'))"

text \<open>
  One directory scan of \<open>os.walk\<close>: the names of the sub-directories and of the other
  entries of \<open>top\<close>, in table order. \<open>None\<close> when \<open>top\<close> is not a directory (the scan
  fails, and \<open>os.walk\<close> ignores the failure).
\<close>

definition scandir :: "fs \<Rightarrow> string \<Rightarrow> (string list \<times> string list) option" where
  "scandir t top_dir =
     (if isdir t top_dir
      then (let es = filter (\<lambda>(k, n). k \<noteq> top_dir \<and> dirname k = top_dir \<and> basename k \<noteq> []) t
            in Some (map (basename \<circ> fst) (filter (\<lambda>(k, n). n = Dir) es),
                     map (basename \<circ> fst) (filter (\<lambda>(k, n). n \<noteq> Dir) es)))
      else None)"

section \<open>The application environment\<close>

text \<open>
  What the handler reads from outside \<open>template.py\<close>, as parameters:
  \<^item> \<open>abspath\<close>: \<open>cement.utils.fs.abspath\<close>;
  \<^item> \<open>re_match\<close>, \<open>re_sub\<close>: Python's \<open>re.match(pattern, string)\<close> (as a truth value) and
    \<open>re.sub(pattern, repl, string)\<close>, for patterns that compile;
  \<^item> \<open>render\<close>: the \<open>render(content, data)\<close> of the sub-class;
  \<^item> \<open>meta_exclude\<close>, \<open>meta_ignore\<close>: \<open>self._meta.exclude\<close> and \<open>self._meta.ignore\<close> after
    \<open>__init__\<close> (lists, never \<open>None\<close>);
  \<^item> \<open>template_dirs\<close>, \<open>template_module\<close>: \<open>self.app._meta\<close>;
  \<^item> \<open>sys_modules\<close>: the names in \<open>sys.modules\<close>; \<open>import_ok m\<close>: \<open>__import__(m)\<close> returns
    (otherwise it raises \<open>ImportError\<close>);
  \<^item> \<open>get_data\<close>: \<open>pkgutil.get_data(module, path)\<close>.
\<close>

datatype get_data_result = Data string | NoData | RaisesIOError

record 'd env =
  abspath :: "string \<Rightarrow> string"
  re_match :: "string \<Rightarrow> string \<Rightarrow> bool"
  re_sub :: "string \<Rightarrow> string \<Rightarrow> string \<Rightarrow> string"
  render :: "string \<Rightarrow> 'd \<Rightarrow> string"
  meta_exclude :: "string list"
  meta_ignore :: "string list"
  template_dirs :: "string list"
  template_module :: string
  sys_modules :: "string list"
  import_ok :: "string \<Rightarrow> bool"
  get_data :: "string \<Rightarrow> string \<Rightarrow> get_data_result"

section \<open>TemplateHandler.load\<close>

text \<open>
  \<open>_load_template_from_file\<close>: the loop over \<open>template_dirs\<close>. \<open>Inr None\<close> is the
  \<open>(None, None)\<close> after the loop; an existing path that cannot be read raises.
\<close>

definition template_full_path :: "'d env \<Rightarrow> string \<Rightarrow> string \<Rightarrow> string" where
  "template_full_path e template_dir template_path =
     abspath e (join (rstrip (CHR ''/'') template_dir) (lstrip (CHR ''/'') template_path))"

fun load_template_from_file ::
  "'d env \<Rightarrow> fs \<Rightarrow> string \<Rightarrow> string list \<Rightarrow> error + (string \<times> string) option" where
  "load_template_from_file e t template_path [] = Inr None"
| "load_template_from_file e t template_path (template_dir # rest) =
     (let full_path = template_full_path e template_dir template_path
      in if path_exists t full_path
         then (case read_file t full_path of
                 Inl err \<Rightarrow> Inl err
               | Inr content \<Rightarrow> Inr (Some (content, full_path)))
         else load_template_from_file e t (lstrip (CHR ''/'') template_path) rest)"

text \<open>
  \<open>_load_template_from_module\<close>: the pair \<open>(content, path)\<close>, each possibly \<open>None\<close>.
\<close>

definition load_template_from_module ::
  "'d env \<Rightarrow> string \<Rightarrow> string option \<times> string option" where
  "load_template_from_module e template_path0 =
     (let template_module = template_module e;
          template_path = lstrip (CHR ''/'') template_path0;
          full_module_path = template_module @ ''.'' @ re_sub e ''/'' ''.'' template_path
      in if template_module \<notin> set (sys_modules e) \<and> \<not> import_ok e template_module
         then (None, None)
         else (case get_data e template_module template_path of
                 Data content \<Rightarrow> (Some content, Some full_module_path)
               | NoData \<Rightarrow> (None, Some full_module_path)
               | RaisesIOError \<Rightarrow> (None, None)))"

text \<open>
  \<open>load\<close>. The argument is \<open>None\<close> or a string. The two messages are
  \<open>"Invalid template path '%s'."\<close> and \<open>"Could not locate template: %s"\<close>.
\<close>

definition invalid_template_path :: "string \<Rightarrow> error" where
  "invalid_template_path shown =
     FrameworkError (''Invalid template path '' @ [CHR 0x27] @ shown @ [CHR 0x27] @ ''.'')"

definition could_not_locate :: "string \<Rightarrow> error" where
  "could_not_locate template_path = FrameworkError (''Could not locate template: '' @ template_path)"

definition load ::
  "'d env \<Rightarrow> fs \<Rightarrow> string option \<Rightarrow> error + (string \<times> string \<times> string option)" where
  "load e t arg =
     (case arg of
        None \<Rightarrow> Inl (invalid_template_path ''None'')
      | Some template_path \<Rightarrow>
          if template_path = [] then Inl (invalid_template_path [])
          else (case load_template_from_file e t template_path (template_dirs e) of
                  Inl err \<Rightarrow> Inl err
                | Inr (Some (content, path)) \<Rightarrow> Inr (content, ''directory'', Some path)
                | Inr None \<Rightarrow>
                    (case load_template_from_module e template_path of
                       (None, _) \<Rightarrow> Inl (could_not_locate template_path)
                     | (Some content, path) \<Rightarrow> Inr (content, ''module'', path))))"

section \<open>TemplateHandler.copy\<close>

text \<open>
  The state that \<open>copy\<close> changes: the file system, and the arguments \<open>render\<close> has been
  called with so far, oldest first. The second component is there so that "never
  rendered" can be stated; no decision of the code reads it.
\<close>

record state =
  disk :: fs
  render_calls :: "string list"

definition call_render :: "'d env \<Rightarrow> state \<Rightarrow> string \<Rightarrow> 'd \<Rightarrow> string \<times> state" where
  "call_render e st content data =
     (render e content data, st\<lparr>render_calls := render_calls st @ [content]\<rparr>)"

text \<open>
  The pattern loop: \<open>for pattern in all_patterns: if re.match(pattern, _file): ...; break\<close>.
\<close>

fun matches_any :: "'d env \<Rightarrow> string list \<Rightarrow> string \<Rightarrow> bool" where
  "matches_any e [] file = False"
| "matches_any e (pattern # rest) file =
     (if re_match e pattern file then True else matches_any e rest file)"

text \<open>A \<open>for\<close> loop whose body may raise: the first error ends it.\<close>

fun for_each :: "('s \<Rightarrow> 'a \<Rightarrow> error + 's) \<Rightarrow> 's \<Rightarrow> 'a list \<Rightarrow> error + 's" where
  "for_each body st [] = Inr st"
| "for_each body st (x # xs) =
     (case body st x of Inl err \<Rightarrow> Inl err | Inr st' \<Rightarrow> for_each body st' xs)"

definition source_missing :: "string \<Rightarrow> error" where
  "source_missing src = AssertionError (''Source path '' @ src @ '' does not exist!'')"

definition destination_exists :: "string \<Rightarrow> error" where
  "destination_exists file_dest =
     AssertionError (''Destination file already exists: '' @ file_dest @ '' '')"

text \<open>The body of \<open>for sub_dir in sub_dirs\<close>.\<close>

definition make_sub_dir ::
  "'d env \<Rightarrow> 'd \<Rightarrow> string \<Rightarrow> string \<Rightarrow> state \<Rightarrow> string \<Rightarrow> error + state" where
  "make_sub_dir e data src cur_dir_dest st sub_dir =
     (let (rendered, st1) = call_render e st sub_dir data;
          new_sub_dir = re_sub e src [] rendered;
          sub_dir_dest = join cur_dir_dest new_sub_dir
      in if \<not> path_exists (disk st1) sub_dir_dest
         then (case makedirs (disk st1) sub_dir_dest of
                 Inl err \<Rightarrow> Inl err
               | Inr t \<Rightarrow> Inr (st1\<lparr>disk := t\<rparr>))
         else Inr st1)"

text \<open>
  The body of \<open>for _file in files\<close>. \<open>source_file\<close> and \<open>dest_file\<close> are the values
  assigned to \<open>_file\<close> and \<open>_file_dest\<close>; \<open>ignore_it\<close> and \<open>exclude_it\<close> are the flags of
  the same names once their pattern loops have run.
\<close>

definition source_file :: "'d env \<Rightarrow> string \<Rightarrow> string \<Rightarrow> string" where
  "source_file e cur_dir name = abspath e (join cur_dir name)"

definition dest_file :: "'d env \<Rightarrow> 'd \<Rightarrow> string \<Rightarrow> string \<Rightarrow> string \<Rightarrow> string" where
  "dest_file e data src cur_dir_dest name =
     (let new_file = re_sub e src [] (render e name data)
      in abspath e (join cur_dir_dest new_file))"

definition ignore_it :: "'d env \<Rightarrow> string list \<Rightarrow> string \<Rightarrow> bool" where
  "ignore_it e ignore file =
     (let all_patterns = meta_ignore e @ ignore in matches_any e all_patterns file)"

definition exclude_it :: "'d env \<Rightarrow> string list \<Rightarrow> string \<Rightarrow> bool" where
  "exclude_it e exclude file =
     (let all_patterns = meta_exclude e @ exclude in matches_any e all_patterns file)"

definition copy_file ::
  "'d env \<Rightarrow> 'd \<Rightarrow> bool \<Rightarrow> string list \<Rightarrow> string list \<Rightarrow> string \<Rightarrow> string \<Rightarrow> string
     \<Rightarrow> state \<Rightarrow> string \<Rightarrow> error + state" where
  "copy_file e data force exclude ignore src cur_dir cur_dir_dest st name =
     (let (rendered, st1) = call_render e st name data;
          new_file = re_sub e src [] rendered;
          file = abspath e (join cur_dir name);
          file_dest = abspath e (join cur_dir_dest new_file)
      in if \<not> force \<and> path_exists (disk st1) file_dest
         then Inl (destination_exists file_dest)
         else if ignore_it e ignore file
         then Inr st1
         else if exclude_it e exclude file
         then (case shutil_copy (disk st1) file file_dest of
                 Inl err \<Rightarrow> Inl err
               | Inr t \<Rightarrow> Inr (st1\<lparr>disk := t\<rparr>))
         else (case read_file (disk st1) (join cur_dir file) of
                 Inl err \<Rightarrow> Inl err
               | Inr content \<Rightarrow>
                   (let (file_content, st2) = call_render e st1 content data
                    in case write_file (disk st2) file_dest file_content of
                         Inl err \<Rightarrow> Inl err
                       | Inr t \<Rightarrow> Inr (st2\<lparr>disk := t\<rparr>))))"

text \<open>
  The body of \<open>for cur_dir, sub_dirs, files in os.walk(src)\<close>.
\<close>

definition visit_dir ::
  "'d env \<Rightarrow> 'd \<Rightarrow> bool \<Rightarrow> string list \<Rightarrow> string list \<Rightarrow> string \<Rightarrow> string
     \<Rightarrow> state \<Rightarrow> string \<times> string list \<times> string list \<Rightarrow> error + state" where
  "visit_dir e data force exclude ignore src dest st entry =
     (case entry of (cur_dir, sub_dirs, file_names) \<Rightarrow>
        if cur_dir = ''.'' then Inr st
        else (let (cur_dir_dest, st1) =
                    (if cur_dir = src then (dest, st)
                     else (let (rendered, st') = call_render e st cur_dir data;
                               cur_dir_stub = re_sub e src [] rendered;
                               cur_dir_stub = lstrip (CHR ''/'') cur_dir_stub;
                               cur_dir_stub = lstrip (CHR 0x5C) cur_dir_stub
                           in (join dest cur_dir_stub, st')))
              in case for_each (make_sub_dir e data src cur_dir_dest) st1 sub_dirs of
                   Inl err \<Rightarrow> Inl err
                 | Inr st2 \<Rightarrow>
                     for_each (copy_file e data force exclude ignore src cur_dir cur_dir_dest)
                       st2 file_names))"

text \<open>
  \<open>os.walk(src)\<close>, top-down, with the loop body run between the scan of a directory and
  the scans of its sub-directories, as the generator does: \<open>pending\<close> are the directories
  still to scan, and each is scanned in the file system the loop body has left. Such a
  walk need not end (a destination inside the source grows under the walk), so the
  result is an option: \<open>None\<close> is a walk that never ends.
\<close>

partial_function (option) walk ::
  "(state \<Rightarrow> string \<times> string list \<times> string list \<Rightarrow> error + state) \<Rightarrow> state \<Rightarrow> string list
     \<Rightarrow> (error + state) option" where
  "walk body st pending =
     (case pending of
        [] \<Rightarrow> Some (Inr st)
      | top_dir # rest \<Rightarrow>
          (case scandir (disk st) top_dir of
             None \<Rightarrow> walk body st rest
           | Some (sub_dirs, file_names) \<Rightarrow>
               (case body st (top_dir, sub_dirs, file_names) of
                  Inl err \<Rightarrow> Some (Inl err)
                | Inr st' \<Rightarrow> walk body st' (map (join top_dir) sub_dirs @ rest))))"

declare walk.simps [code]

text \<open>
  \<open>copy\<close>. \<open>Some (Inr st)\<close> is \<open>return True\<close>, with the state it leaves.
\<close>

definition copy ::
  "'d env \<Rightarrow> state \<Rightarrow> string \<Rightarrow> string \<Rightarrow> 'd \<Rightarrow> bool \<Rightarrow> string list option \<Rightarrow> string list option
     \<Rightarrow> (error + state) option" where
  "copy e st src0 dest0 data force exclude0 ignore0 =
     (let dest = abspath e dest0;
          src = abspath e src0;
          exclude = (case exclude0 of None \<Rightarrow> [] | Some xs \<Rightarrow> xs);
          ignore = (case ignore0 of None \<Rightarrow> [] | Some xs \<Rightarrow> xs)
      in if \<not> path_exists (disk st) src then Some (Inl (source_missing src))
         else (case (if \<not> path_exists (disk st) dest then makedirs (disk st) dest
                     else Inr (disk st)) of
                 Inl err \<Rightarrow> Some (Inl err)
               | Inr t \<Rightarrow>
                   walk (visit_dir e data force exclude ignore src dest) (st\<lparr>disk := t\<rparr>) [src]))"


section \<open>A concrete environment\<close>

text \<open>
  Stand-ins for the collaborators, for running the model on concrete trees.
  \<open>abspath_at cwd\<close> is \<open>fs.abspath\<close> in working directory \<open>cwd\<close>, on paths in normal form
  that do not start with \<open>~\<close>. \<open>literal_sub\<close> is \<open>re.sub\<close> for a non-empty pattern without
  metacharacters: every occurrence, left to right, is replaced.
\<close>

definition abspath_at :: "string \<Rightarrow> string \<Rightarrow> string" where
  "abspath_at cwd p = (if isabs p then p else join cwd p)"

fun sub_from :: "nat \<Rightarrow> string \<Rightarrow> string \<Rightarrow> string \<Rightarrow> string" where
  "sub_from k pat repl [] = []"
| "sub_from k pat repl (c # cs) =
     (if 0 < k then sub_from (k - 1) pat repl cs
      else if pat \<noteq> [] \<and> take (length pat) (c # cs) = pat
      then repl @ sub_from (length pat - 1) pat repl cs
      else c # sub_from 0 pat repl cs)"

definition literal_sub :: "string \<Rightarrow> string \<Rightarrow> string \<Rightarrow> string" where
  "literal_sub pat repl s = sub_from 0 pat repl s"

text \<open>
  \<open>simple_match\<close> is \<open>re.match\<close> on strings without a newline, for the two shapes of
  pattern used here: \<open>^(.*)BODY$\<close>, where \<open>BODY\<close> is made of characters, escaped
  characters and dots (the shape of every default of \<open>Meta.exclude\<close>): the string ends
  with a match of \<open>BODY\<close>; and a pattern without metacharacters: the string starts
  with it.
\<close>

fun body_tokens :: "string \<Rightarrow> char option list" where
  "body_tokens [] = []"
| "body_tokens [c] = [if c = CHR ''.'' then None else Some c]"
| "body_tokens (c # d # cs) =
     (if c = CHR 0x5C then Some d # body_tokens cs
      else (if c = CHR ''.'' then None else Some c) # body_tokens (d # cs))"

definition token_match :: "char option \<Rightarrow> char \<Rightarrow> bool" where
  "token_match tok c = (case tok of None \<Rightarrow> True | Some x \<Rightarrow> c = x)"

definition simple_match :: "string \<Rightarrow> string \<Rightarrow> bool" where
  "simple_match pattern s =
     (if take 5 pattern = ''^(.*)'' \<and> 6 \<le> length pattern \<and> last pattern = CHR ''$''
      then (let toks = body_tokens (butlast (drop 5 pattern)); n = length toks
            in n \<le> length s \<and> list_all2 token_match toks (drop (length s - n) s))
      else take (length pattern) s = pattern)"

text \<open>The default of \<open>Meta.exclude\<close>.\<close>

definition default_exclude :: "string list" where
  "default_exclude =
     map (\<lambda>ext. ''^(.*)'' @ [CHR 0x5C] @ ext @ ''$'')
       [''.png'', ''.jpg'', ''.jpeg'', ''.gif'', ''.exe'', ''.bin'', ''.zip'', ''.tar'',
        ''.tar.gz'', ''.tgz'', ''.gz'', ''.pyo'', ''.pyc'']"

text \<open>
  A render function that substitutes tokens literally: \<open>{{key}}\<close> becomes the value of
  \<open>key\<close> in the context.
\<close>

definition render_tokens :: "string \<Rightarrow> (string \<times> string) list \<Rightarrow> string" where
  "render_tokens content data =
     fold (\<lambda>(k, v) s. literal_sub (''{{'' @ k @ ''}}'') v s) data content"

definition example_env :: "(string \<times> string) list env" where
  "example_env =
     \<lparr>abspath = abspath_at ''/'',
      re_match = simple_match,
      re_sub = literal_sub,
      render = render_tokens,
      meta_exclude = default_exclude,
      meta_ignore = [],
      template_dirs = [''/etc/myapp/templates/'', ''/usr/lib/myapp/templates'',
                       ''/opt/myapp/templates''],
      template_module = ''myapp.templates'',
      sys_modules = [],
      import_ok = (\<lambda>m. m = ''myapp.templates''),
      get_data = (\<lambda>m p. if m = ''myapp.templates'' \<and> p = ''base.txt''
                          then Data ''module base'' else RaisesIOError)\<rparr>"

text \<open>
  A file system for \<open>load\<close>: \<open>a/b.txt\<close> is absent under the first directory of
  \<open>example_env\<close> and present under the second and the third.
\<close>

definition template_disk :: fs where
  "template_disk =
     [(''/usr/lib/myapp/templates'', Dir),
      (''/usr/lib/myapp/templates/a'', Dir),
      (''/usr/lib/myapp/templates/a/b.txt'', File ''second''),
      (''/opt/myapp/templates'', Dir),
      (''/opt/myapp/templates/a'', Dir),
      (''/opt/myapp/templates/a/b.txt'', File ''third'')]"

text \<open>
  Trees for \<open>copy\<close>, and the render context \<open>{name: "Acme"}\<close>.
\<close>

definition hello_disk :: fs where
  "hello_disk =
     [(''/src'', Dir),
      (''/src/{{name}}'', Dir),
      (''/src/{{name}}/readme.txt'', File ''Hello {{name}}'')]"

definition overwrite_disk :: fs where
  "overwrite_disk =
     [(''/src'', Dir),
      (''/src/keep.txt'', File ''new {{name}}''),
      (''/dest'', Dir),
      (''/dest/keep.txt'', File ''old'')]"

definition assets_disk :: fs where
  "assets_disk =
     [(''/src'', Dir),
      (''/src/logo.png'', File ''{{name}} raw''),
      (''/src/skip.me'', File ''{{name}}''),
      (''/dest'', Dir)]"

definition acme :: "(string \<times> string) list" where
  "acme = [(''name'', ''Acme'')]"

section \<open>Properties of load\<close>

text \<open>
  C4: \<open>load\<close> called with the empty string or with \<open>None\<close> raises the invalid-path
  \<open>FrameworkError\<close>, whatever the directories, the module and the file system hold: no
  source is consulted first.
\<close>

theorem load_invalid_path:
  "load e t None = Inl (FrameworkError (''Invalid template path '' @ [CHR 0x27] @ ''None'' @ [CHR 0x27] @ ''.''))
   \<and> load e t (Some []) = Inl (FrameworkError (''Invalid template path '' @ [CHR 0x27, CHR 0x27] @ ''.''))"
  by (simp add: load_def invalid_template_path_def)

subsection \<open>Facts about the loop over the directories\<close>

lemma lstrip_idem: "lstrip c (lstrip c s) = lstrip c s"
  unfolding lstrip_def by (induction s) auto

lemma template_full_path_lstrip:
  "template_full_path e d (lstrip (CHR ''/'') p) = template_full_path e d p"
  by (simp add: template_full_path_def lstrip_idem)

lemma load_template_from_file_lstrip:
  "load_template_from_file e t (lstrip (CHR ''/'') p) ds = load_template_from_file e t p ds"
  by (induction ds) (simp_all add: template_full_path_lstrip lstrip_idem Let_def)

lemma load_template_from_file_miss:
  "\<forall>d \<in> set ds. \<not> path_exists t (template_full_path e d p)
   \<Longrightarrow> load_template_from_file e t p (ds @ rest) = load_template_from_file e t p rest"
  by (induction ds) (simp_all add: load_template_from_file_lstrip)

lemma load_template_from_file_hit:
  assumes "lookup t (template_full_path e d p) = Some (File content)"
  shows "load_template_from_file e t p (d # rest) = Inr (Some (content, template_full_path e d p))"
  using assms by (simp add: path_exists_def read_file_def)

text \<open>
  A path that exists as a directory is opened all the same: \<open>open\<close> raises, and no
  later directory is tried.
\<close>

lemma load_first_hit_is_directory:
  assumes "template_path \<noteq> []"
    and "template_dirs e = before @ d # after"
    and "\<forall>d' \<in> set before. \<not> path_exists t (template_full_path e d' template_path)"
    and "lookup t (template_full_path e d template_path) = Some Dir"
  shows "load e t (Some template_path)
         = Inl (IsADirectoryError (template_full_path e d template_path))"
proof -
  have "load_template_from_file e t template_path (template_dirs e)
        = load_template_from_file e t template_path (d # after)"
    using assms(2,3) by (simp add: load_template_from_file_miss)
  also have "\<dots> = Inl (IsADirectoryError (template_full_path e d template_path))"
    using assms(4) by (simp add: path_exists_def read_file_def)
  finally show ?thesis
    using assms(1) by (simp add: load_def)
qed

text \<open>
  C1: for a non-empty template path, when the file exists under some directory of
  \<open>template_dirs\<close> and the path exists under none of the directories before it, \<open>load\<close>
  returns the content of that file, the type \<open>directory\<close> and the full path of the
  file: the directories are tried in their declared order and the first hit ends the
  search, whatever the later directories hold.
\<close>

theorem load_first_directory_hit:
  assumes "template_path \<noteq> []"
    and "template_dirs e = before @ d # after"
    and "\<forall>d' \<in> set before. \<not> path_exists t (template_full_path e d' template_path)"
    and "lookup t (template_full_path e d template_path) = Some (File content)"
  shows "load e t (Some template_path)
         = Inr (content, ''directory'', Some (template_full_path e d template_path))"
proof -
  have "load_template_from_file e t template_path (template_dirs e)
        = load_template_from_file e t template_path (d # after)"
    using assms(2,3) by (simp add: load_template_from_file_miss)
  also have "\<dots> = Inr (Some (content, template_full_path e d template_path))"
    using assms(4) by (rule load_template_from_file_hit)
  finally show ?thesis
    using assms(1) by (simp add: load_def)
qed

theorem load_first_directory_hit_witness:
  "load example_env template_disk (Some ''/a/b.txt'')
   = Inr (''second'', ''directory'', Some ''/usr/lib/myapp/templates/a/b.txt'')"
proof -
  have dirs: "template_dirs example_env
              = [''/etc/myapp/templates/''] @ ''/usr/lib/myapp/templates'' # [''/opt/myapp/templates'']"
    by (simp add: example_env_def)
  have miss: "\<forall>d' \<in> set [''/etc/myapp/templates/''].
                \<not> path_exists template_disk (template_full_path example_env d' ''/a/b.txt'')"
    by code_simp
  have full: "template_full_path example_env ''/usr/lib/myapp/templates'' ''/a/b.txt''
              = ''/usr/lib/myapp/templates/a/b.txt''"
    by code_simp
  have hit: "lookup template_disk (template_full_path example_env ''/usr/lib/myapp/templates'' ''/a/b.txt'')
             = Some (File ''second'')"
    by code_simp
  have "''/a/b.txt'' \<noteq> []" by simp
  from load_first_directory_hit [OF this dirs miss hit] show ?thesis
    by (simp only: full)
qed

text \<open>
  C2: for a non-empty path that exists under no directory of \<open>template_dirs\<close>: when the
  module is loaded or can be imported and holds the resource, \<open>load\<close> returns the
  resource's content with the type \<open>module\<close>; when the module is not loaded and its import
  fails, the failure is not raised: \<open>load\<close> ends as for a template that was not found.
\<close>

theorem load_module_fallback:
  assumes "template_path \<noteq> []"
    and "\<forall>d \<in> set (template_dirs e). \<not> path_exists t (template_full_path e d template_path)"
  shows "((template_module e \<in> set (sys_modules e) \<or> import_ok e (template_module e))
           \<and> get_data e (template_module e) (lstrip (CHR ''/'') template_path) = Data content
          \<longrightarrow> load e t (Some template_path)
              = Inr (content, ''module'',
                     Some (template_module e @ ''.'' @ re_sub e ''/'' ''.'' (lstrip (CHR ''/'') template_path))))
       \<and> (template_module e \<notin> set (sys_modules e) \<and> \<not> import_ok e (template_module e)
          \<longrightarrow> load e t (Some template_path)
              = Inl (FrameworkError (''Could not locate template: '' @ template_path)))"
proof -
  have "load_template_from_file e t template_path (template_dirs e @ []) = Inr None"
    using assms(2) by (subst load_template_from_file_miss) simp_all
  then show ?thesis
    using assms(1)
    by (auto simp: load_def load_template_from_module_def could_not_locate_def Let_def)
qed

theorem load_module_fallback_witness:
  "load example_env template_disk (Some ''base.txt'')
     = Inr (''module base'', ''module'', Some ''myapp.templates.base.txt'')
   \<and> load (example_env\<lparr>import_ok := (\<lambda>m. False)\<rparr>) template_disk (Some ''base.txt'')
     = Inl (FrameworkError ''Could not locate template: base.txt'')"
proof -
  let ?e = "example_env\<lparr>import_ok := (\<lambda>m. False)\<rparr>"
  have miss: "\<forall>d \<in> set (template_dirs example_env).
                \<not> path_exists template_disk (template_full_path example_env d ''base.txt'')"
    by code_simp
  have found: "(template_module example_env \<in> set (sys_modules example_env)
                 \<or> import_ok example_env (template_module example_env))
               \<and> get_data example_env (template_module example_env) (lstrip (CHR ''/'') ''base.txt'')
                 = Data ''module base''"
    by code_simp
  have path: "template_module example_env @ ''.'' @ re_sub example_env ''/'' ''.'' (lstrip (CHR ''/'') ''base.txt'')
              = ''myapp.templates.base.txt''"
    by code_simp
  have miss': "\<forall>d \<in> set (template_dirs ?e).
                 \<not> path_exists template_disk (template_full_path ?e d ''base.txt'')"
    by code_simp
  have failed: "template_module ?e \<notin> set (sys_modules ?e) \<and> \<not> import_ok ?e (template_module ?e)"
    by code_simp
  have ne: "''base.txt'' \<noteq> []" by simp
  from load_module_fallback [OF ne miss, of "''module base''"] found
  have "load example_env template_disk (Some ''base.txt'')
        = Inr (''module base'', ''module'', Some ''myapp.templates.base.txt'')"
    by (simp only: path)
  moreover from load_module_fallback [OF ne miss', of undefined] failed
  have "load ?e template_disk (Some ''base.txt'')
        = Inl (FrameworkError ''Could not locate template: base.txt'')"
    by simp
  ultimately show ?thesis by simp
qed

text \<open>
  C3: for a non-empty path that exists under no directory of \<open>template_dirs\<close> and for which
  the module gives no content (its import fails, or \<open>get_data\<close> returns \<open>None\<close> or raises
  \<open>IOError\<close>), \<open>load\<close> raises the \<open>FrameworkError\<close> "Could not locate template", which
  names the path as it was given.
\<close>

theorem load_not_found:
  assumes "template_path \<noteq> []"
    and "\<forall>d \<in> set (template_dirs e). \<not> path_exists t (template_full_path e d template_path)"
    and "(template_module e \<notin> set (sys_modules e) \<and> \<not> import_ok e (template_module e))
         \<or> get_data e (template_module e) (lstrip (CHR ''/'') template_path) = NoData
         \<or> get_data e (template_module e) (lstrip (CHR ''/'') template_path) = RaisesIOError"
  shows "load e t (Some template_path)
         = Inl (FrameworkError (''Could not locate template: '' @ template_path))"
proof -
  have "load_template_from_file e t template_path (template_dirs e @ []) = Inr None"
    using assms(2) by (subst load_template_from_file_miss) simp_all
  then show ?thesis
    using assms(1,3)
    by (auto simp: load_def load_template_from_module_def could_not_locate_def Let_def)
qed

theorem load_not_found_witness:
  "load example_env template_disk (Some ''nothing.txt'')
   = Inl (FrameworkError ''Could not locate template: nothing.txt'')"
proof -
  have miss: "\<forall>d \<in> set (template_dirs example_env).
                \<not> path_exists template_disk (template_full_path example_env d ''nothing.txt'')"
    by code_simp
  have absent: "(template_module example_env \<notin> set (sys_modules example_env)
                   \<and> \<not> import_ok example_env (template_module example_env))
                \<or> get_data example_env (template_module example_env) (lstrip (CHR ''/'') ''nothing.txt'') = NoData
                \<or> get_data example_env (template_module example_env) (lstrip (CHR ''/'') ''nothing.txt'') = RaisesIOError"
    by code_simp
  have "''nothing.txt'' \<noteq> []" by simp
  from load_not_found [OF this miss absent] show ?thesis by simp
qed

section \<open>Facts about the file system\<close>

lemma lookup_root [simp]: "lookup t ''/'' = Some Dir"
  by (simp add: lookup_def)

lemma lookup_update:
  "lookup (AList.update k v t) p = (if p = k \<and> p \<noteq> ''/'' then Some v else lookup t p)"
  by (simp add: lookup_def update_conv')

lemma mkdir_missing_lookup:
  "mkdir_missing t leaf as = Inr t' \<Longrightarrow>
   lookup t' p = (if p \<in> set as \<and> lookup t p = None then Some Dir else lookup t p)"
proof (induction as arbitrary: t)
  case Nil
  then show ?case by simp
next
  case (Cons a as)
  show ?case
  proof (cases "lookup t a")
    case None
    with Cons.prems have "mkdir_missing (AList.update a Dir t) leaf as = Inr t'" by simp
    moreover from None have "a \<noteq> ''/''" by auto
    ultimately show ?thesis
      using Cons.IH [of "AList.update a Dir t"] None
      by (auto simp: lookup_update)
  next
    case (Some n)
    with Cons.prems obtain "n = Dir" and "mkdir_missing t leaf as = Inr t'"
      by (cases n) simp_all
    from Cons.IH [OF this(2)] Some show ?thesis by auto
  qed
qed

lemma mkdir_missing_isdir:
  assumes "mkdir_missing t leaf as = Inr t'" and "a \<in> set as"
  shows "isdir t' a"
proof -
  have "lookup t a \<noteq> Some (File c)" for c
    using assms
  proof (induction as arbitrary: t)
    case Nil
    then show ?case by simp
  next
    case (Cons b bs)
    show ?case
    proof (cases "lookup t b")
      case None
      with Cons.prems(1) have m: "mkdir_missing (AList.update b Dir t) leaf bs = Inr t'" by simp
      show ?thesis
      proof (cases "a = b")
        case True
        with None show ?thesis by simp
      next
        case False
        with Cons.prems(2) have "a \<in> set bs" by simp
        from Cons.IH [OF m this] False show ?thesis
          by (auto simp: lookup_update split: if_splits)
      qed
    next
      case (Some n)
      with Cons.prems(1) obtain n: "n = Dir" and m: "mkdir_missing t leaf bs = Inr t'"
        by (cases n) simp_all
      show ?thesis
      proof (cases "a = b")
        case True
        with Some n show ?thesis by simp
      next
        case False
        with Cons.prems(2) have "a \<in> set bs" by simp
        from Cons.IH [OF m this] show ?thesis .
      qed
    qed
  qed
  then show ?thesis
    using mkdir_missing_lookup [OF assms(1), of a] assms(2)
    by (cases "lookup t a") (auto simp: isdir_def intro: node.exhaust)
qed

lemma mkdir_missing_succeeds:
  "\<forall>a \<in> set as. \<forall>c. lookup t a \<noteq> Some (File c) \<Longrightarrow> \<exists>t'. mkdir_missing t leaf as = Inr t'"
proof (induction as arbitrary: t)
  case Nil
  then show ?case by simp
next
  case (Cons a as)
  show ?case
  proof (cases "lookup t a")
    case None
    have "\<forall>b \<in> set as. \<forall>c. lookup (AList.update a Dir t) b \<noteq> Some (File c)"
      using Cons.prems by (auto simp: lookup_update)
    from Cons.IH [OF this] None show ?thesis by simp
  next
    case (Some n)
    with Cons.prems have "n = Dir" by (cases n) auto
    moreover have "\<forall>b \<in> set as. \<forall>c. lookup t b \<noteq> Some (File c)"
      using Cons.prems by simp
    from Cons.IH [OF this] Some calculation show ?thesis by simp
  qed
qed

lemma not_in_ancestors: "p \<notin> set (ancestors p)"
proof
  assume "p \<in> set (ancestors p)"
  then obtain i where "i < length p" and "p = take i p"
    by (auto simp: ancestors_def)
  then have "length p = i" by (metis length_take min.absorb2 less_imp_le)
  with \<open>i < length p\<close> show False by simp
qed

lemma makedirs_result:
  assumes "makedirs t p = Inr t'"
  shows "isdir t' p" and "\<forall>a \<in> set (ancestors p). isdir t' a"
    and "lookup t q = Some n \<Longrightarrow> lookup t' q = Some n"
proof -
  from assms obtain t1 where m: "mkdir_missing t p (ancestors p) = Inr t1"
    and ne: "\<not> path_exists t1 p" and t': "t' = AList.update p Dir t1"
    by (auto simp: makedirs_def split: sum.splits if_splits)
  show "isdir t' p" by (simp add: t' isdir_def lookup_update)
  show "\<forall>a \<in> set (ancestors p). isdir t' a"
    using mkdir_missing_isdir [OF m] by (auto simp: t' isdir_def lookup_update)
  show "lookup t' q = Some n" if "lookup t q = Some n"
    using that mkdir_missing_lookup [OF m, of q] ne
    by (auto simp: t' lookup_update path_exists_def split: if_splits)
qed

lemma makedirs_succeeds:
  assumes "\<not> path_exists t p" and "\<forall>a \<in> set (ancestors p). \<not> isfile t a"
  shows "\<exists>t'. makedirs t p = Inr t'"
proof -
  from assms(2) have "\<forall>a \<in> set (ancestors p). \<forall>c. lookup t a \<noteq> Some (File c)"
    by (auto simp: isfile_def)
  from mkdir_missing_succeeds [OF this] obtain t1 where m: "mkdir_missing t p (ancestors p) = Inr t1" ..
  have "lookup t1 p = None"
    using mkdir_missing_lookup [OF m, of p] assms(1) not_in_ancestors [of p]
    by (simp add: path_exists_def)
  with m show ?thesis by (simp add: makedirs_def path_exists_def)
qed

lemma walk_not_a_directory:
  "\<not> isdir (disk st) p \<Longrightarrow> walk body st [p] = Some (Inr st)"
  by (subst walk.simps, simp add: scandir_def, subst walk.simps, simp)


section \<open>Facts about copy\<close>

lemma copy_file_unfold:
  "copy_file e data force exclude ignore src cur_dir cur_dir_dest st name =
     (let file = source_file e cur_dir name;
          file_dest = dest_file e data src cur_dir_dest name
      in if \<not> force \<and> path_exists (disk st) file_dest
         then Inl (destination_exists file_dest)
         else if ignore_it e ignore file
         then Inr (st\<lparr>render_calls := render_calls st @ [name]\<rparr>)
         else if exclude_it e exclude file
         then (case shutil_copy (disk st) file file_dest of
                 Inl err \<Rightarrow> Inl err
               | Inr t \<Rightarrow> Inr (st\<lparr>disk := t, render_calls := render_calls st @ [name]\<rparr>))
         else (case read_file (disk st) (join cur_dir file) of
                 Inl err \<Rightarrow> Inl err
               | Inr content \<Rightarrow>
                   (case write_file (disk st) file_dest (render e content data) of
                      Inl err \<Rightarrow> Inl err
                    | Inr t \<Rightarrow> Inr (st\<lparr>disk := t, render_calls := render_calls st @ [name, content]\<rparr>))))"
  by (simp add: copy_file_def call_render_def Let_def source_file_def dest_file_def
           split: sum.splits)

lemma matches_any_iff: "matches_any e ps file \<longleftrightarrow> (\<exists>pattern \<in> set ps. re_match e pattern file)"
  by (induction ps) simp_all

lemma join_isabs: "isabs b \<Longrightarrow> join a b = b"
  by (simp add: join_def)

lemma walk_first_error:
  "scandir (disk st) top_dir = Some (sub_dirs, file_names)
   \<Longrightarrow> body st (top_dir, sub_dirs, file_names) = Inl err
   \<Longrightarrow> walk body st (top_dir # rest) = Some (Inl err)"
  by (subst walk.simps) simp


subsection \<open>Loops as compositions of steps\<close>



subsection \<open>The file system grows by copies\<close>











section \<open>Properties of copy\<close>

text \<open>
  C5, as amended: \<open>copy\<close> fails with the assertion error "Source path ... does not exist!"
  when the source path does not exist. When the source exists, the destination does not
  and no ancestor of the destination is a regular file, the destination and all its
  missing ancestors are directories before the traversal starts: \<open>copy\<close> is then the walk
  from that file system. A source that exists as a regular file passes the check: nothing
  is traversed, and \<open>copy\<close> returns normally once the destination exists.
\<close>

theorem copy_source_check:
  "(\<not> path_exists (disk st) (abspath e src0)
      \<longrightarrow> copy e st src0 dest0 data force exclude ignore
          = Some (Inl (AssertionError (''Source path '' @ abspath e src0 @ '' does not exist!''))))
   \<and> (path_exists (disk st) (abspath e src0) \<and> \<not> path_exists (disk st) (abspath e dest0)
      \<and> (\<forall>a \<in> set (ancestors (abspath e dest0)). \<not> isfile (disk st) a)
      \<longrightarrow> (\<exists>t. makedirs (disk st) (abspath e dest0) = Inr t
              \<and> isdir t (abspath e dest0)
              \<and> (\<forall>a \<in> set (ancestors (abspath e dest0)). isdir t a)
              \<and> copy e st src0 dest0 data force exclude ignore
                = walk (visit_dir e data force (case exclude of None \<Rightarrow> [] | Some xs \<Rightarrow> xs)
                          (case ignore of None \<Rightarrow> [] | Some xs \<Rightarrow> xs)
                          (abspath e src0) (abspath e dest0))
                    (st\<lparr>disk := t\<rparr>) [abspath e src0]))
   \<and> (lookup (disk st) (abspath e src0) = Some (File c)
      \<longrightarrow> copy e st src0 dest0 data force exclude ignore
          = (if path_exists (disk st) (abspath e dest0) then Some (Inr st)
             else (case makedirs (disk st) (abspath e dest0) of
                     Inl err \<Rightarrow> Some (Inl err)
                   | Inr t \<Rightarrow> Some (Inr (st\<lparr>disk := t\<rparr>)))))"
proof (intro conjI impI)
  assume "\<not> path_exists (disk st) (abspath e src0)"
  then show "copy e st src0 dest0 data force exclude ignore
             = Some (Inl (AssertionError (''Source path '' @ abspath e src0 @ '' does not exist!'')))"
    by (simp add: copy_def Let_def source_missing_def)
next
  assume h: "path_exists (disk st) (abspath e src0) \<and> \<not> path_exists (disk st) (abspath e dest0)
      \<and> (\<forall>a \<in> set (ancestors (abspath e dest0)). \<not> isfile (disk st) a)"
  then obtain t where m: "makedirs (disk st) (abspath e dest0) = Inr t"
    using makedirs_succeeds by blast
  from h m have "copy e st src0 dest0 data force exclude ignore
                = walk (visit_dir e data force (case exclude of None \<Rightarrow> [] | Some xs \<Rightarrow> xs)
                          (case ignore of None \<Rightarrow> [] | Some xs \<Rightarrow> xs)
                          (abspath e src0) (abspath e dest0))
                    (st\<lparr>disk := t\<rparr>) [abspath e src0]"
    by (simp add: copy_def Let_def)
  with m makedirs_result(1,2) [OF m]
  show "\<exists>t. makedirs (disk st) (abspath e dest0) = Inr t
              \<and> isdir t (abspath e dest0)
              \<and> (\<forall>a \<in> set (ancestors (abspath e dest0)). isdir t a)
              \<and> copy e st src0 dest0 data force exclude ignore
                = walk (visit_dir e data force (case exclude of None \<Rightarrow> [] | Some xs \<Rightarrow> xs)
                          (case ignore of None \<Rightarrow> [] | Some xs \<Rightarrow> xs)
                          (abspath e src0) (abspath e dest0))
                    (st\<lparr>disk := t\<rparr>) [abspath e src0]"
    by blast
next
  assume f: "lookup (disk st) (abspath e src0) = Some (File c)"
  then have ex: "path_exists (disk st) (abspath e src0)" by (simp add: path_exists_def)
  from f have nd: "\<not> isdir (disk st) (abspath e src0)" by (simp add: isdir_def)
  show "copy e st src0 dest0 data force exclude ignore
          = (if path_exists (disk st) (abspath e dest0) then Some (Inr st)
             else (case makedirs (disk st) (abspath e dest0) of
                     Inl err \<Rightarrow> Some (Inl err)
                   | Inr t \<Rightarrow> Some (Inr (st\<lparr>disk := t\<rparr>))))"
  proof (cases "path_exists (disk st) (abspath e dest0)")
    case True
    with ex nd show ?thesis
      by (simp add: copy_def Let_def walk_not_a_directory)
  next
    case False
    show ?thesis
    proof (cases "makedirs (disk st) (abspath e dest0)")
      case (Inl err)
      with False ex show ?thesis by (simp add: copy_def Let_def)
    next
      case (Inr t)
      from makedirs_result(3) [OF Inr f] have "\<not> isdir (disk (st\<lparr>disk := t\<rparr>)) (abspath e src0)"
        by (simp add: isdir_def)
      from walk_not_a_directory [OF this] Inr False ex show ?thesis
        by (simp add: copy_def Let_def)
    qed
  qed
qed

theorem copy_source_check_witness:
  "copy example_env \<lparr>disk = hello_disk, render_calls = []\<rparr> ''missing'' ''dest'' acme False None None
     = Some (Inl (AssertionError ''Source path /missing does not exist!''))
   \<and> (\<exists>t. makedirs hello_disk ''/a/b/dest'' = Inr t
          \<and> isdir t ''/a/b/dest'' \<and> isdir t ''/a'' \<and> isdir t ''/a/b'')
   \<and> copy example_env \<lparr>disk = overwrite_disk, render_calls = []\<rparr>
         ''/src/keep.txt'' ''/dest'' acme False None None
     = Some (Inr \<lparr>disk = overwrite_disk, render_calls = []\<rparr>)"
proof -
  let ?st = "\<lparr>disk = hello_disk, render_calls = []\<rparr>"
  let ?st' = "\<lparr>disk = overwrite_disk, render_calls = []\<rparr>"
  note T1 = copy_source_check [where e = example_env and st = ?st and ?src0.0 = "''missing''"
      and ?dest0.0 = "''dest''" and data = acme and force = False and exclude = None and ignore = None]
  note T2 = copy_source_check [where e = example_env and st = ?st and ?src0.0 = "''src''"
      and ?dest0.0 = "''a/b/dest''" and data = acme and force = False and exclude = None and ignore = None]
  note T3 = copy_source_check [where e = example_env and st = ?st' and ?src0.0 = "''/src/keep.txt''"
      and ?dest0.0 = "''/dest''" and data = acme and force = False and exclude = None and ignore = None]
  have p1: "abspath example_env ''missing'' = ''/missing''" by code_simp
  have p2: "abspath example_env ''a/b/dest'' = ''/a/b/dest''" by code_simp
  have p3: "abspath example_env ''/src/keep.txt'' = ''/src/keep.txt''" by code_simp
  have p4: "abspath example_env ''/dest'' = ''/dest''" by code_simp
  have h1: "\<not> path_exists (disk ?st) (abspath example_env ''missing'')" by code_simp
  have h2: "path_exists (disk ?st) (abspath example_env ''src'')
            \<and> \<not> path_exists (disk ?st) (abspath example_env ''a/b/dest'')
            \<and> (\<forall>a \<in> set (ancestors (abspath example_env ''a/b/dest'')).
                  \<not> isfile (disk ?st) a)"
    by code_simp
  have h3: "lookup (disk ?st') (abspath example_env ''/src/keep.txt'') = Some (File ''new {{name}}'')"
    by code_simp
  have h4: "path_exists (disk ?st') (abspath example_env ''/dest'')" by code_simp
  have an: "set (ancestors ''/a/b/dest'') = {''/a'', ''/a/b''}" by code_simp
  from T1 [THEN conjunct1, THEN mp, OF h1]
  have c1: "copy example_env ?st ''missing'' ''dest'' acme False None None
            = Some (Inl (AssertionError ''Source path /missing does not exist!''))"
    by (simp add: p1)
  from T2 [THEN conjunct2, THEN conjunct1, THEN mp, OF h2]
  have c2: "\<exists>t. makedirs hello_disk ''/a/b/dest'' = Inr t
          \<and> isdir t ''/a/b/dest'' \<and> isdir t ''/a'' \<and> isdir t ''/a/b''"
    by (auto simp: p2 an)
  from T3 [THEN conjunct2, THEN conjunct2, THEN mp, OF h3] h4
  have c3: "copy example_env ?st' ''/src/keep.txt'' ''/dest'' acme False None None = Some (Inr ?st')"
    by simp
  from c1 c2 c3 show ?thesis by blast
qed

text \<open>
  The source \<open>/src\<close> is a regular file, not a directory: \<open>copy\<close> raises nothing, creates
  the destination and returns.
\<close>

theorem copy_source_file_counterexample:
  "lookup [(''/src'', File ''x'')] ''/src'' = Some (File ''x'')
   \<and> \<not> isdir [(''/src'', File ''x'')] ''/src''
   \<and> copy example_env \<lparr>disk = [(''/src'', File ''x'')], render_calls = []\<rparr>
         ''/src'' ''/a/b/dest'' acme False None None
     = Some (Inr \<lparr>disk = [(''/src'', File ''x''), (''/a'', Dir), (''/a/b'', Dir), (''/a/b/dest'', Dir)],
                  render_calls = []\<rparr>)"
  by code_simp

text \<open>
  C6, as amended: for a file entry whose destination path exists, \<open>copy\<close> fails with the
  assertion error "Destination file already exists: ..." naming that path when \<open>force\<close> is
  false. When \<open>force\<close> is true, the destination is a regular file, and the source is a
  regular file at another, absolute path that matches no ignore pattern, the entry
  succeeds and the destination then holds the source's content: as it is when the path
  matches an exclude pattern, rendered otherwise.
\<close>

theorem copy_file_overwrite_policy:
  "(\<not> force \<and> path_exists (disk st) (dest_file e data src cur_dir_dest name)
      \<longrightarrow> copy_file e data force exclude ignore src cur_dir cur_dir_dest st name
          = Inl (AssertionError (''Destination file already exists: ''
                                  @ dest_file e data src cur_dir_dest name @ '' '')))
   \<and> (force \<and> lookup (disk st) (dest_file e data src cur_dir_dest name) = Some (File old)
      \<and> \<not> ignore_it e ignore (source_file e cur_dir name)
      \<and> isabs (source_file e cur_dir name)
      \<and> lookup (disk st) (source_file e cur_dir name) = Some (File content)
      \<and> source_file e cur_dir name \<noteq> dest_file e data src cur_dir_dest name
      \<longrightarrow> (\<exists>st'. copy_file e data force exclude ignore src cur_dir cur_dir_dest st name = Inr st'
              \<and> lookup (disk st') (dest_file e data src cur_dir_dest name)
                = Some (File (if exclude_it e exclude (source_file e cur_dir name)
                              then content else render e content data))))"
proof (intro conjI impI)
  assume "\<not> force \<and> path_exists (disk st) (dest_file e data src cur_dir_dest name)"
  then show "copy_file e data force exclude ignore src cur_dir cur_dir_dest st name
             = Inl (AssertionError (''Destination file already exists: ''
                                     @ dest_file e data src cur_dir_dest name @ '' ''))"
    by (simp add: copy_file_unfold destination_exists_def)
next
  let ?f = "source_file e cur_dir name" and ?d = "dest_file e data src cur_dir_dest name"
  assume h: "force \<and> lookup (disk st) ?d = Some (File old) \<and> \<not> ignore_it e ignore ?f
             \<and> isabs ?f \<and> lookup (disk st) ?f = Some (File content) \<and> ?f \<noteq> ?d"
  then have root: "?d \<noteq> ''/''" by auto
  from h have w: "write_file (disk st) ?d c = Inr (AList.update ?d (File c) (disk st))" for c
    by (simp add: write_file_def)
  from h have r: "read_file (disk st) (join cur_dir ?f) = Inr content"
    by (simp add: join_isabs read_file_def)
  from h have s: "shutil_copy (disk st) ?f ?d = Inr (AList.update ?d (File content) (disk st))"
    by (simp add: shutil_copy_def isdir_def read_file_def w)
  from h root show "\<exists>st'. copy_file e data force exclude ignore src cur_dir cur_dir_dest st name = Inr st'
              \<and> lookup (disk st') ?d
                = Some (File (if exclude_it e exclude ?f then content else render e content data))"
    by (simp add: copy_file_unfold r s w lookup_update)
qed

theorem copy_file_overwrite_policy_witness:
  "copy_file example_env acme False [] [] ''/src'' ''/src'' ''/dest''
       \<lparr>disk = overwrite_disk, render_calls = []\<rparr> ''keep.txt''
     = Inl (AssertionError ''Destination file already exists: /dest/keep.txt '')
   \<and> (\<exists>st'. copy_file example_env acme True [] [] ''/src'' ''/src'' ''/dest''
                \<lparr>disk = overwrite_disk, render_calls = []\<rparr> ''keep.txt'' = Inr st'
            \<and> lookup (disk st') ''/dest/keep.txt'' = Some (File ''new Acme''))
   \<and> (\<exists>st'. copy_file example_env acme True [''/src/keep''] [] ''/src'' ''/src'' ''/dest''
                \<lparr>disk = overwrite_disk, render_calls = []\<rparr> ''keep.txt'' = Inr st'
            \<and> lookup (disk st') ''/dest/keep.txt'' = Some (File ''new {{name}}''))"
proof -
  let ?st = "\<lparr>disk = overwrite_disk, render_calls = []\<rparr>"
  let ?f = "source_file example_env ''/src'' ''keep.txt''"
  let ?d = "dest_file example_env acme ''/src'' ''/dest'' ''keep.txt''"
  note T = copy_file_overwrite_policy [where e = example_env and data = acme and src = "''/src''"
      and cur_dir = "''/src''" and cur_dir_dest = "''/dest''" and st = ?st and name = "''keep.txt''"
      and ignore = "[]"]
  have d: "?d = ''/dest/keep.txt''" by code_simp
  have h1: "\<not> False \<and> path_exists (disk ?st) ?d" by code_simp
  have h2: "True \<and> lookup (disk ?st) ?d = Some (File ''old'')
            \<and> \<not> ignore_it example_env [] ?f \<and> isabs ?f
            \<and> lookup (disk ?st) ?f = Some (File ''new {{name}}'') \<and> ?f \<noteq> ?d"
    by code_simp
  have x1: "\<not> exclude_it example_env [] ?f" by code_simp
  have x2: "exclude_it example_env [''/src/keep''] ?f" by code_simp
  have r: "render example_env ''new {{name}}'' acme = ''new Acme''" by code_simp
  from T [where force = False and exclude = "[]", THEN conjunct1, THEN mp, OF h1]
  have c1: "copy_file example_env acme False [] [] ''/src'' ''/src'' ''/dest'' ?st ''keep.txt''
            = Inl (AssertionError ''Destination file already exists: /dest/keep.txt '')"
    by (simp add: d)
  from T [where force = True and exclude = "[]", THEN conjunct2, THEN mp, OF h2]
  have c2: "\<exists>st'. copy_file example_env acme True [] [] ''/src'' ''/src'' ''/dest'' ?st ''keep.txt'' = Inr st'
            \<and> lookup (disk st') ''/dest/keep.txt'' = Some (File ''new Acme'')"
    by (simp add: d x1 r)
  from T [where force = True and exclude = "[''/src/keep'']", THEN conjunct2, THEN mp, OF h2]
  have c3: "\<exists>st'. copy_file example_env acme True [''/src/keep''] [] ''/src'' ''/src'' ''/dest'' ?st ''keep.txt'' = Inr st'
            \<and> lookup (disk st') ''/dest/keep.txt'' = Some (File ''new {{name}}'')"
    by (simp add: d x2)
  from c1 c2 c3 show ?thesis by blast
qed

text \<open>
  With \<open>force\<close> true and a source path that matches an ignore pattern, the entry is
  skipped: \<open>copy\<close> succeeds and the existing destination file keeps its old content.
\<close>

theorem overwrite_ignored_counterexample:
  "lookup overwrite_disk ''/dest/keep.txt'' = Some (File ''old'')
   \<and> copy example_env \<lparr>disk = overwrite_disk, render_calls = []\<rparr>
         ''/src'' ''/dest'' acme True None (Some [''/src/keep''])
     = Some (Inr \<lparr>disk = [(''/src'', Dir),
                          (''/src/keep.txt'', File ''new {{name}}''),
                          (''/dest'', Dir),
                          (''/dest/keep.txt'', File ''old'')],
                  render_calls = [''keep.txt'']\<rparr>)"
  by code_simp

text \<open>The same tree without the ignore pattern: the destination file is replaced.\<close>

lemma copy_overwrite_example:
  "copy example_env \<lparr>disk = overwrite_disk, render_calls = []\<rparr>
         ''/src'' ''/dest'' acme True None None
     = Some (Inr \<lparr>disk = [(''/src'', Dir),
                          (''/src/keep.txt'', File ''new {{name}}''),
                          (''/dest'', Dir),
                          (''/dest/keep.txt'', File ''new Acme'')],
                  render_calls = [''keep.txt'', ''new {{name}}'']\<rparr>)"
  by code_simp



text \<open>
  A whole \<open>copy\<close> over a tree with an excluded and an ignored file: the first arrives
  unrendered, the second does not arrive.
\<close>

lemma copy_assets_example:
  "copy example_env \<lparr>disk = assets_disk, render_calls = []\<rparr>
         ''/src'' ''/dest'' acme False None (Some [''/src/skip''])
     = Some (Inr \<lparr>disk = [(''/src'', Dir),
                          (''/src/logo.png'', File ''{{name}} raw''),
                          (''/src/skip.me'', File ''{{name}}''),
                          (''/dest'', Dir),
                          (''/dest/logo.png'', File ''{{name}} raw'')],
                  render_calls = [''logo.png'', ''skip.me'']\<rparr>)"
  by code_simp

text \<open>
  C8: a path matches a pattern list exactly when \<open>re.match\<close> accepts it for some pattern
  of the list (the match that \<open>re.match\<close> makes is anchored at the start of the path
  and need not reach its end); the list consulted for ignoring is \<open>Meta.ignore\<close> followed
  by the \<open>ignore\<close> argument, for excluding \<open>Meta.exclude\<close> followed by the \<open>exclude\<close>
  argument, so a pattern of either part counts.
\<close>

theorem pattern_list_semantics:
  "(matches_any e patterns file \<longleftrightarrow> (\<exists>pattern \<in> set patterns. re_match e pattern file))
   \<and> (ignore_it e ignore file
        \<longleftrightarrow> (\<exists>pattern \<in> set (meta_ignore e) \<union> set ignore. re_match e pattern file))
   \<and> (exclude_it e exclude file
        \<longleftrightarrow> (\<exists>pattern \<in> set (meta_exclude e) \<union> set exclude. re_match e pattern file))
   \<and> ignore_it e ignore file = matches_any e (meta_ignore e @ ignore) file
   \<and> exclude_it e exclude file = matches_any e (meta_exclude e @ exclude) file"
  by (auto simp: matches_any_iff ignore_it_def exclude_it_def)

theorem pattern_list_semantics_witness:
  "ignore_it (example_env\<lparr>meta_ignore := [''/src/skip'']\<rparr>) [''/other''] ''/src/skip.me''
   \<and> exclude_it example_env [''/src/raw''] ''/src/raw.txt''
   \<and> exclude_it example_env [''/src/raw''] ''/src/logo.png''
   \<and> \<not> exclude_it example_env [''/src/raw''] ''/src/a.txt''"
proof -
  let ?e = "example_env\<lparr>meta_ignore := [''/src/skip'']\<rparr>"
  have a: "\<exists>pattern \<in> set (meta_ignore ?e) \<union> set [''/other'']. re_match ?e pattern ''/src/skip.me''"
    by code_simp
  have b: "\<exists>pattern \<in> set (meta_exclude example_env) \<union> set [''/src/raw''].
             re_match example_env pattern ''/src/raw.txt''"
    by code_simp
  have c: "\<exists>pattern \<in> set (meta_exclude example_env) \<union> set [''/src/raw''].
             re_match example_env pattern ''/src/logo.png''"
    by code_simp
  have d: "\<not> (\<exists>pattern \<in> set (meta_exclude example_env) \<union> set [''/src/raw''].
             re_match example_env pattern ''/src/a.txt'')"
    by code_simp
  from a b c d show ?thesis
    by (simp only: pattern_list_semantics [THEN conjunct2, THEN conjunct1]
                   pattern_list_semantics [THEN conjunct2, THEN conjunct2, THEN conjunct1]) simp
qed

text \<open>
  C9: the tree \<open>src/{{name}}/readme.txt\<close> with content \<open>Hello {{name}}\<close>, copied with
  the context \<open>{name: "Acme"}\<close> and literal token substitution, gives
  \<open>dest/Acme/readme.txt\<close> with content \<open>Hello Acme\<close>; the source tree is unchanged and
  nothing else is created.
\<close>

theorem copy_hello_acme:
  "copy example_env \<lparr>disk = hello_disk, render_calls = []\<rparr> ''src'' ''dest'' acme False None None
   = Some (Inr \<lparr>disk = [(''/src'', Dir),
                        (''/src/{{name}}'', Dir),
                        (''/src/{{name}}/readme.txt'', File ''Hello {{name}}''),
                        (''/dest'', Dir),
                        (''/dest/Acme'', Dir),
                        (''/dest/Acme/readme.txt'', File ''Hello Acme'')],
                render_calls = [''{{name}}'', ''/src/{{name}}'', ''readme.txt'', ''Hello {{name}}'']\<rparr>)"
  by code_simp

text \<open>
  C10: with \<open>force\<close> false, a file entry whose destination path exists fails with the
  assertion error "Destination file already exists: ...", and so does the loop over the
  files that reaches it, whatever the ignore and exclude patterns are, so also when the
  source path matches an ignore pattern: the check comes first. When the entry is the
  first file of a source directory without sub-directories, the whole \<open>copy\<close> ends with
  that error. An entry whose source path matches an ignore pattern and that passes the
  check is skipped: nothing is written for it.
\<close>

theorem destination_check_precedes_ignore:
  "(\<not> force \<and> path_exists (disk st) (dest_file e data src cur_dir_dest name)
      \<longrightarrow> copy_file e data force exclude ignore src cur_dir cur_dir_dest st name
            = Inl (AssertionError (''Destination file already exists: ''
                                    @ dest_file e data src cur_dir_dest name @ '' ''))
          \<and> for_each (copy_file e data force exclude ignore src cur_dir cur_dir_dest) st (name # rest)
            = Inl (AssertionError (''Destination file already exists: ''
                                    @ dest_file e data src cur_dir_dest name @ '' '')))
   \<and> (\<not> force \<and> abspath e src0 \<noteq> ''.'' \<and> path_exists (disk st) (abspath e dest0)
      \<and> scandir (disk st) (abspath e src0) = Some ([], name # rest)
      \<and> path_exists (disk st) (dest_file e data (abspath e src0) (abspath e dest0) name)
      \<longrightarrow> copy e st src0 dest0 data force exclude0 ignore0
          = Some (Inl (AssertionError (''Destination file already exists: ''
                         @ dest_file e data (abspath e src0) (abspath e dest0) name @ '' ''))))
   \<and> (ignore_it e ignore (source_file e cur_dir name)
      \<and> (force \<or> \<not> path_exists (disk st) (dest_file e data src cur_dir_dest name))
      \<longrightarrow> copy_file e data force exclude ignore src cur_dir cur_dir_dest st name
          = Inr (st\<lparr>render_calls := render_calls st @ [name]\<rparr>))"
proof -
  let ?src = "abspath e src0" and ?dest = "abspath e dest0"
  let ?err = "AssertionError (''Destination file already exists: ''
                         @ dest_file e data ?src ?dest name @ '' '')"
  have entry: "copy_file e data force exclude ignore src cur_dir cur_dir_dest st name
                 = Inl (AssertionError (''Destination file already exists: ''
                                         @ dest_file e data src cur_dir_dest name @ '' ''))"
    if "\<not> force \<and> path_exists (disk st) (dest_file e data src cur_dir_dest name)"
    using that by (simp add: copy_file_unfold destination_exists_def)
  have whole: "copy e st src0 dest0 data force exclude0 ignore0 = Some (Inl ?err)"
    if h: "\<not> force \<and> ?src \<noteq> ''.'' \<and> path_exists (disk st) ?dest
           \<and> scandir (disk st) ?src = Some ([], name # rest)
           \<and> path_exists (disk st) (dest_file e data ?src ?dest name)"
  proof -
    from h have ex: "path_exists (disk st) ?src"
      by (auto simp: scandir_def isdir_def path_exists_def split: if_splits)
    let ?body = "visit_dir e data force (case exclude0 of None \<Rightarrow> [] | Some xs \<Rightarrow> xs)
                   (case ignore0 of None \<Rightarrow> [] | Some xs \<Rightarrow> xs) ?src ?dest"
    from h have s: "scandir (disk st) ?src = Some ([], name # rest)" by simp
    have b: "?body st (?src, [], name # rest) = Inl ?err"
      using h by (simp add: visit_dir_def copy_file_unfold destination_exists_def)
    have "walk ?body st [?src] = Some (Inl ?err)"
      by (rule walk_first_error) (rule s, rule b)
    with h ex show ?thesis
      by (simp add: copy_def Let_def)
  qed
  have skipped: "copy_file e data force exclude ignore src cur_dir cur_dir_dest st name
                   = Inr (st\<lparr>render_calls := render_calls st @ [name]\<rparr>)"
    if "ignore_it e ignore (source_file e cur_dir name)
        \<and> (force \<or> \<not> path_exists (disk st) (dest_file e data src cur_dir_dest name))"
    using that by (auto simp: copy_file_unfold)
  from entry whole skipped show ?thesis by simp
qed

theorem destination_check_precedes_ignore_witness:
  "ignore_it example_env [''/src/keep''] (source_file example_env ''/src'' ''keep.txt'')
   \<and> copy_file example_env acme False [] [''/src/keep''] ''/src'' ''/src'' ''/dest''
       \<lparr>disk = overwrite_disk, render_calls = []\<rparr> ''keep.txt''
     = Inl (AssertionError ''Destination file already exists: /dest/keep.txt '')
   \<and> copy example_env \<lparr>disk = overwrite_disk, render_calls = []\<rparr>
         ''/src'' ''/dest'' acme False None (Some [''/src/keep''])
     = Some (Inl (AssertionError ''Destination file already exists: /dest/keep.txt ''))
   \<and> copy_file example_env acme False [] [''/src/keep''] ''/src'' ''/src'' ''/elsewhere''
       \<lparr>disk = overwrite_disk, render_calls = []\<rparr> ''keep.txt''
     = Inr \<lparr>disk = overwrite_disk, render_calls = [''keep.txt'']\<rparr>"
proof -
  let ?st = "\<lparr>disk = overwrite_disk, render_calls = []\<rparr>"
  note T = destination_check_precedes_ignore [where e = example_env and data = acme and force = False
      and st = ?st and name = "''keep.txt''" and rest = "[]"]
  have i: "ignore_it example_env [''/src/keep''] (source_file example_env ''/src'' ''keep.txt'')"
    by code_simp
  have d: "dest_file example_env acme ''/src'' ''/dest'' ''keep.txt'' = ''/dest/keep.txt''"
    by code_simp
  have p: "abspath example_env ''/src'' = ''/src''" "abspath example_env ''/dest'' = ''/dest''"
    by code_simp+
  have h1: "\<not> False \<and> path_exists (disk ?st) (dest_file example_env acme ''/src'' ''/dest'' ''keep.txt'')"
    by code_simp
  have h2: "\<not> False \<and> abspath example_env ''/src'' \<noteq> ''.''
            \<and> path_exists (disk ?st) (abspath example_env ''/dest'')
            \<and> scandir (disk ?st) (abspath example_env ''/src'') = Some ([], ''keep.txt'' # [])
            \<and> path_exists (disk ?st)
                 (dest_file example_env acme (abspath example_env ''/src'') (abspath example_env ''/dest'') ''keep.txt'')"
    by code_simp
  from T [where src = "''/src''" and cur_dir = "''/src''" and cur_dir_dest = "''/dest''"
            and exclude = "[]" and ignore = "[''/src/keep'']",
          THEN conjunct1, THEN mp, OF h1, THEN conjunct1]
  have c1: "copy_file example_env acme False [] [''/src/keep''] ''/src'' ''/src'' ''/dest'' ?st ''keep.txt''
            = Inl (AssertionError ''Destination file already exists: /dest/keep.txt '')"
    by (simp add: d)
  from T [where ?src0.0 = "''/src''" and ?dest0.0 = "''/dest''" and ?exclude0.0 = None
            and ?ignore0.0 = "Some [''/src/keep'']", THEN conjunct2, THEN conjunct1, THEN mp, OF h2]
  have c2: "copy example_env ?st ''/src'' ''/dest'' acme False None (Some [''/src/keep''])
            = Some (Inl (AssertionError ''Destination file already exists: /dest/keep.txt ''))"
    by (simp add: p d)
  have h3: "ignore_it example_env [''/src/keep''] (source_file example_env ''/src'' ''keep.txt'')
            \<and> (False \<or> \<not> path_exists (disk ?st)
                             (dest_file example_env acme ''/src'' ''/elsewhere'' ''keep.txt''))"
    by code_simp
  from T [where src = "''/src''" and cur_dir = "''/src''" and cur_dir_dest = "''/elsewhere''"
            and exclude = "[]" and ignore = "[''/src/keep'']",
          THEN conjunct2, THEN conjunct2, THEN mp, OF h3]
  have c3: "copy_file example_env acme False [] [''/src/keep''] ''/src'' ''/src'' ''/elsewhere'' ?st ''keep.txt''
            = Inr \<lparr>disk = overwrite_disk, render_calls = [''keep.txt'']\<rparr>"
    by simp
  from i c1 c2 c3 show ?thesis by blast
qed

end
